theory Spec2Isabelle
  imports Complex_Main
begin

section \<open>Python values used by the tools\<close>

text \<open>
  The exceptions the modelled code can raise. \<open>UserError\<close> is what \<open>require\<close> raises,
  \<open>TypeError\<close> and \<open>KeyError\<close> are Python's own, and \<open>External\<close> stands for any
  exception raised by a collaborator outside this repository (the file store, the
  container runtime, the operating system), identified by its description.
\<close>

datatype exn = UserError string | TypeError string | KeyError string | External string

subsection \<open>Decimal rendering of integers: \<open>str(n)\<close>, \<open>'%s' % n\<close>, \<open>'%d' % n\<close>\<close>

definition digit_char :: "nat \<Rightarrow> char" where
  "digit_char d = ''0123456789'' ! (d mod 10)"

function str_nat :: "nat \<Rightarrow> string" where
  "str_nat n = (if n < 10 then [digit_char n] else str_nat (n div 10) @ [digit_char (n mod 10)])"
  by pat_completeness auto
termination
  by (relation "measure (\<lambda>n. n)") auto

declare str_nat.simps [simp del]

definition str_int :: "int \<Rightarrow> string" where
  "str_int i = (if i < 0 then CHR ''-'' # str_nat (nat (- i)) else str_nat (nat i))"

section \<open>spark\_tools.py\<close>

definition SPARK_MASTER_PORT :: string where
  "SPARK_MASTER_PORT = ''7077''"

definition HDFS_MASTER_PORT :: string where
  "HDFS_MASTER_PORT = ''8020''"

subsection \<open>\<open>MasterAddress\<close>\<close>

text \<open>
  \<open>class MasterAddress(str)\<close>: a string (the notional address, the value of the \<open>str\<close>
  object itself) with one attribute \<open>actual\<close>. Comparison of a \<open>MasterAddress\<close> with a
  string, and string concatenation, use the notional value only, as \<open>str\<close> does.
\<close>

record master_address =
  notional :: string
  actual :: string

text \<open>\<open>__init__\<close>: \<open>self.actual = self\<close>.\<close>

definition MasterAddress :: "string \<Rightarrow> master_address" where
  "MasterAddress master_ip = \<lparr>notional = master_ip, actual = master_ip\<rparr>"

text \<open>
  \<open>docker_parameters(self, docker_parameters=None)\<close>. The argument is \<open>None\<close> or a list;
  \<open>append\<close> mutates the caller's list in place, so the model returns a pair: the value
  returned, and the value of the argument object after the call.
\<close>

definition docker_parameters ::
  "master_address \<Rightarrow> string list option \<Rightarrow> string list option \<times> string list option" where
  "docker_parameters self dps =
     (if notional self \<noteq> actual self then
        (let add_host_option = ''--add-host=spark-master:'' @ actual self in
         case dps of
           None \<Rightarrow> (Some [add_host_option], None)
         | Some ps \<Rightarrow> (Some (ps @ [add_host_option]), Some (ps @ [add_host_option])))
      else (dps, dps))"

subsection \<open>\<open>_make_parameters\<close>\<close>

text \<open>
  Modelled from the spec: \<open>require\<close> is imported from the package's \<open>__init__\<close>, which is
  not among the sources. The spec says that the call "fails with a configuration error"
  when the required condition does not hold; the model raises \<open>UserError\<close> with the
  message it is given.
\<close>

definition require :: "bool \<Rightarrow> string \<Rightarrow> exn + unit" where
  "require expression message = (if expression then Inr () else Inl (UserError message))"

definition make_parameters ::
  "string \<Rightarrow> string list \<Rightarrow> int option \<Rightarrow> string list \<Rightarrow> string list option
     \<Rightarrow> exn + string list" where
  "make_parameters master_ip default_parameters memory arguments override_parameters =
     (case require ((override_parameters \<noteq> None \<or> memory \<noteq> None) \<and>
                    (override_parameters = None \<or> memory = None))
             ''Either the memory setting must be defined or you must provide Spark configuration parameters.''
      of
        Inl e \<Rightarrow> Inl e
      | Inr _ \<Rightarrow>
         (case (case memory of
                  Some m \<Rightarrow>
                    Inr [''--master'', ''spark://'' @ master_ip @ '':'' @ SPARK_MASTER_PORT,
                         ''--conf'', ''spark.driver.memory='' @ str_int m,
                         ''--conf'', ''spark.executor.memory='' @ str_int m,
                         ''--conf'', ''spark.hadoop.fs.default.name=hdfs://'' @ master_ip @ '':''
                                       @ HDFS_MASTER_PORT]
                | None \<Rightarrow>
                   (case override_parameters of
                      Some ov \<Rightarrow> Inr ([] @ ov)
                    | None \<Rightarrow> Inl (TypeError ''NoneType object is not iterable'')))
          of
            Inl e \<Rightarrow> Inl e
          | Inr parameters \<Rightarrow> Inr (((parameters @ default_parameters) @ [''--'']) @ arguments)))"

subsection \<open>\<open>_format_time\<close>\<close>

text \<open>
  Times are Python floats; the model takes them as real numbers, so rounding of the
  float operations is left out. \<open>int(x)\<close> of a float truncates towards zero.
\<close>

definition py_int :: "real \<Rightarrow> int" where
  "py_int x = (if x < 0 then \<lceil>x\<rceil> else \<lfloor>x\<rfloor>)"

definition format_time :: "real \<Rightarrow> real \<Rightarrow> string" where
  "format_time start_time end_time =
     (let elapsed_time = end_time - start_time;
          elapsed_hours = py_int (elapsed_time / 3600);
          elapsed_minutes = py_int ((elapsed_time - real_of_int elapsed_hours * 3600) / 60);
          elapsed_seconds = py_int (elapsed_time -
             (real_of_int elapsed_hours * 3600 + real_of_int elapsed_minutes * 60))
      in str_int elapsed_hours @ ''h '' @ str_int elapsed_minutes @ ''m '' @
         str_int elapsed_hours @ ''s'')"

section \<open>The external file store\<close>

text \<open>
  Modelled from the spec: the upload and download operations (\<open>s3am_upload\<close> and
  \<open>download_url\<close> of \<open>toil_lib.urls\<close>, and the file store of the workflow engine) are
  not among the sources; only their test is. The spec describes an external
  content-addressed store that holds blobs under opaque handles, with the operations
  \<open>write(local_path) -> handle\<close> and \<open>read(handle, local_path)\<close>; a handle is created by
  an upload and consumed by a download, and the store holds what is written. The
  content address is a parameter \<open>address\<close>; files and blobs are byte strings.
\<close>

type_synonym path = string
type_synonym bytes = string
type_synonym local_files = "path \<rightharpoonup> bytes"
type_synonym 'h file_store = "'h \<rightharpoonup> bytes"

definition store_write ::
  "(bytes \<Rightarrow> 'h) \<Rightarrow> local_files \<Rightarrow> 'h file_store \<Rightarrow> path \<Rightarrow> exn + ('h \<times> 'h file_store)" where
  "store_write address files store local_path =
     (case files local_path of
        None \<Rightarrow> Inl (External ''no such file'')
      | Some content \<Rightarrow> Inr (address content, store(address content \<mapsto> content)))"

definition store_read ::
  "'h file_store \<Rightarrow> local_files \<Rightarrow> 'h \<Rightarrow> path \<Rightarrow> exn + local_files" where
  "store_read store files h local_path =
     (case store h of
        None \<Rightarrow> Inl (External ''no such handle'')
      | Some content \<Rightarrow> Inr (files(local_path \<mapsto> content)))"

section \<open>Properties of parameter assembly\<close>

lemma str_int_4: "str_int 4 = ''4''"
  by (simp add: str_int_def str_nat.simps digit_char_def)

text \<open>
  Claim C1: a call of \<open>_make_parameters\<close> with exactly one of memory and
  override\_parameters supplied (the other being None) succeeds and returns a parameter
  list; a call with both or neither supplied fails with a configuration error.
\<close>

theorem make_parameters_exactly_one:
  "((memory \<noteq> None \<and> override_parameters = None) \<or>
    (memory = None \<and> override_parameters \<noteq> None)
      \<longrightarrow> (\<exists>ps. make_parameters master_ip default_parameters memory arguments
                   override_parameters = Inr ps)) \<and>
   ((memory \<noteq> None \<and> override_parameters \<noteq> None) \<or>
    (memory = None \<and> override_parameters = None)
      \<longrightarrow> (\<exists>msg. make_parameters master_ip default_parameters memory arguments
                   override_parameters = Inl (UserError msg)))"
  by (cases memory; cases override_parameters) (simp_all add: make_parameters_def require_def)

theorem make_parameters_exactly_one_witness:
  "(\<exists>ps. make_parameters ''host'' [''-x''] (Some 4) [''run''] None = Inr ps) \<and>
   (\<exists>ps. make_parameters ''host'' [''-x''] None [''run''] (Some [''--master'', ''local'']) = Inr ps) \<and>
   (\<exists>msg. make_parameters ''host'' [''-x''] (Some 4) [''run''] (Some []) = Inl (UserError msg)) \<and>
   (\<exists>msg. make_parameters ''host'' [''-x''] None [''run''] None = Inl (UserError msg))"
  using make_parameters_exactly_one [of "Some 4" None "''host''" "[''-x'']" "[''run'']"]
        make_parameters_exactly_one [of None "Some [''--master'', ''local'']" "''host''" "[''-x'']" "[''run'']"]
        make_parameters_exactly_one [of "Some 4" "Some []" "''host''" "[''-x'']" "[''run'']"]
        make_parameters_exactly_one [of None None "''host''" "[''-x'']" "[''run'']"]
  by simp

text \<open>
  Claim C2: the list returned by a successful call of \<open>_make_parameters\<close> is the
  concatenation of the first segment, the default parameters, the token \<open>--\<close> and the
  arguments, where the first segment is the memory-derived Spark flags when memory is
  supplied and is override\_parameters when the override flags are supplied.
\<close>

theorem make_parameters_concatenation:
  assumes "make_parameters master_ip default_parameters memory arguments override_parameters = Inr ps"
  shows "((\<exists>m. memory = Some m) \<or> (\<exists>ov. override_parameters = Some ov)) \<and>
         (\<forall>m. memory = Some m \<longrightarrow>
            ps = [''--master'', ''spark://'' @ master_ip @ '':7077'',
                  ''--conf'', ''spark.driver.memory='' @ str_int m,
                  ''--conf'', ''spark.executor.memory='' @ str_int m,
                  ''--conf'', ''spark.hadoop.fs.default.name=hdfs://'' @ master_ip @ '':8020'']
                 @ default_parameters @ [''--''] @ arguments) \<and>
         (\<forall>ov. override_parameters = Some ov \<longrightarrow>
            ps = ov @ default_parameters @ [''--''] @ arguments)"
  using assms
  by (cases memory; cases override_parameters)
     (auto simp: make_parameters_def require_def SPARK_MASTER_PORT_def HDFS_MASTER_PORT_def)

theorem make_parameters_concatenation_witness:
  "make_parameters ''10.0.0.1'' [''--conf'', ''a=b''] None [''transform'', ''in'', ''out'']
       (Some [''--master'', ''local'']) =
     Inr ([''--master'', ''local''] @ [''--conf'', ''a=b''] @ [''--''] @ [''transform'', ''in'', ''out''])"
proof -
  have run: "make_parameters ''10.0.0.1'' [''--conf'', ''a=b''] None [''transform'', ''in'', ''out'']
       (Some [''--master'', ''local'']) =
     Inr [''--master'', ''local'', ''--conf'', ''a=b'', ''--'', ''transform'', ''in'', ''out'']"
    by (simp add: make_parameters_def require_def)
  from make_parameters_concatenation [OF run] show ?thesis
    by (simp add: run)
qed

text \<open>
  Claim C5, as amended: a successful call of \<open>_make_parameters\<close> returns the
  configuration flags (computed-or-override plus default), then one \<open>--\<close> token that the
  function inserts itself, then the tool arguments. The inserted token stands at the
  index that is the number of configuration flags; the list holds one \<open>--\<close> token more
  than the configuration flags and the arguments hold together, hence exactly one when
  neither of them contains \<open>--\<close>.
\<close>

theorem make_parameters_separator:
  assumes "make_parameters master_ip default_parameters memory arguments override_parameters = Inr ps"
  shows "\<exists>flags.
           (case memory of
              Some m \<Rightarrow>
                flags = [''--master'', ''spark://'' @ master_ip @ '':7077'',
                         ''--conf'', ''spark.driver.memory='' @ str_int m,
                         ''--conf'', ''spark.executor.memory='' @ str_int m,
                         ''--conf'', ''spark.hadoop.fs.default.name=hdfs://'' @ master_ip @ '':8020'']
            | None \<Rightarrow> override_parameters = Some flags) \<and>
           ps = (flags @ default_parameters) @ [''--''] @ arguments \<and>
           ps ! length (flags @ default_parameters) = ''--'' \<and>
           take (length (flags @ default_parameters)) ps = flags @ default_parameters \<and>
           drop (Suc (length (flags @ default_parameters))) ps = arguments \<and>
           count_list ps ''--'' =
             count_list (flags @ default_parameters) ''--'' + 1 + count_list arguments ''--'' \<and>
           (''--'' \<notin> set (flags @ default_parameters) \<and> ''--'' \<notin> set arguments
              \<longrightarrow> count_list ps ''--'' = 1)"
proof -
  obtain flags where fl:
    "case memory of
       Some m \<Rightarrow>
         flags = [''--master'', ''spark://'' @ master_ip @ '':7077'',
                  ''--conf'', ''spark.driver.memory='' @ str_int m,
                  ''--conf'', ''spark.executor.memory='' @ str_int m,
                  ''--conf'', ''spark.hadoop.fs.default.name=hdfs://'' @ master_ip @ '':8020'']
     | None \<Rightarrow> override_parameters = Some flags"
    and ps: "ps = (flags @ default_parameters) @ [''--''] @ arguments"
    using assms
    by (cases memory; cases override_parameters)
       (auto simp: make_parameters_def require_def SPARK_MASTER_PORT_def HDFS_MASTER_PORT_def)
  have at: "ps ! length (flags @ default_parameters) = ''--''"
    unfolding ps by (simp only: nth_append_length append_Cons)
  have tk: "take (length (flags @ default_parameters)) ps = flags @ default_parameters"
    unfolding ps by simp
  have dr: "drop (Suc (length (flags @ default_parameters))) ps = arguments"
    unfolding ps by simp
  have cnt: "count_list ps ''--'' =
      count_list (flags @ default_parameters) ''--'' + 1 + count_list arguments ''--''"
    unfolding ps by simp
  have one: "''--'' \<notin> set (flags @ default_parameters) \<and> ''--'' \<notin> set arguments
      \<longrightarrow> count_list ps ''--'' = 1"
    unfolding cnt by simp
  from fl ps at tk dr cnt one show ?thesis
    by blast
qed

theorem make_parameters_separator_witness:
  "make_parameters ''h'' [''-d''] None [''run''] (Some [''-o'']) = Inr [''-o'', ''-d'', ''--'', ''run''] \<and>
   count_list [''-o'', ''-d'', ''--'', ''run''] ''--'' = 1"
proof -
  have run: "make_parameters ''h'' [''-d''] None [''run''] (Some [''-o'']) =
      Inr [''-o'', ''-d'', ''--'', ''run'']"
    by (simp add: make_parameters_def require_def)
  from make_parameters_separator [OF run] show ?thesis
    by (simp add: run)
qed

text \<open>
  The claim as first stated (the returned list contains exactly one \<open>--\<close> token) fails
  when the arguments themselves hold the token: the call
  \<open>_make_parameters('h', [], None, ['--'], [])\<close> returns two of them.
\<close>

theorem make_parameters_separator_counterexample:
  "make_parameters ''h'' [] None [''--''] (Some []) = Inr [''--'', ''--''] \<and>
   count_list [''--'', ''--''] ''--'' = 2"
  by (simp add: make_parameters_def require_def)

text \<open>
  Claim C6: the call \<open>_make_parameters("host", [], 4, ["run"], None)\<close> succeeds, the last
  two elements of its list are \<open>--\<close> and \<open>run\<close>, and the list contains
  \<open>spark.driver.memory=4\<close>.
\<close>

theorem make_parameters_example:
  "\<exists>ps. make_parameters ''host'' [] (Some 4) [''run''] None = Inr ps \<and>
        2 \<le> length ps \<and>
        drop (length ps - 2) ps = [''--'', ''run''] \<and>
        ''spark.driver.memory=4'' \<in> set ps"
  by (simp add: make_parameters_def require_def str_int_4)

theorem make_parameters_example_witness:
  "\<exists>ps. make_parameters ''host'' [] (Some 4) [''run''] None = Inr ps \<and>
        last ps = ''run'' \<and> ''spark.driver.memory=4'' \<in> set ps"
proof -
  from make_parameters_example obtain ps where
    run: "make_parameters ''host'' [] (Some 4) [''run''] None = Inr ps" and
    len: "2 \<le> length ps" and
    tail: "drop (length ps - 2) ps = [''--'', ''run'']" and
    mem: "''spark.driver.memory=4'' \<in> set ps"
    by blast
  from len have "ps \<noteq> []" by auto
  then have "last ps = last (drop (length ps - 2) ps)"
    using len by (simp add: last_drop)
  with tail have "last ps = ''run''" by simp
  with run mem show ?thesis by blast
qed

section \<open>Properties of the master address\<close>

text \<open>
  Claim C3, as amended: when a master address equals its actual address,
  \<open>docker_parameters\<close> returns its argument with no flag added. When the two differ, it
  adds exactly one \<open>--add-host=spark-master:<actual>\<close> flag: the result is the argument
  list followed by that flag (the flag alone when the argument is \<open>None\<close>), the caller's
  list is extended in place, and the result holds one such flag more than the argument
  did, hence exactly one when the argument is \<open>None\<close> or does not hold the flag yet.
\<close>

theorem docker_parameters_add_host:
  "(notional m = actual m \<longrightarrow> docker_parameters m dps = (dps, dps)) \<and>
   (notional m \<noteq> actual m \<longrightarrow>
      docker_parameters m None = (Some [''--add-host=spark-master:'' @ actual m], None) \<and>
      (\<forall>ps. docker_parameters m (Some ps) =
               (Some (ps @ [''--add-host=spark-master:'' @ actual m]),
                Some (ps @ [''--add-host=spark-master:'' @ actual m])) \<and>
            count_list (ps @ [''--add-host=spark-master:'' @ actual m])
                (''--add-host=spark-master:'' @ actual m) =
              count_list ps (''--add-host=spark-master:'' @ actual m) + 1 \<and>
            (''--add-host=spark-master:'' @ actual m \<notin> set ps \<longrightarrow>
               count_list (ps @ [''--add-host=spark-master:'' @ actual m])
                 (''--add-host=spark-master:'' @ actual m) = 1)))"
  by (simp add: docker_parameters_def Let_def)

theorem docker_parameters_add_host_witness:
  "docker_parameters \<lparr>notional = ''spark-master'', actual = ''10.0.0.7''\<rparr> (Some [''--net=host'']) =
     (Some [''--net=host'', ''--add-host=spark-master:10.0.0.7''],
      Some [''--net=host'', ''--add-host=spark-master:10.0.0.7'']) \<and>
   count_list [''--net=host'', ''--add-host=spark-master:10.0.0.7'']
     ''--add-host=spark-master:10.0.0.7'' = 1 \<and>
   docker_parameters \<lparr>notional = ''10.0.0.7'', actual = ''10.0.0.7''\<rparr> (Some [''--net=host'']) =
     (Some [''--net=host''], Some [''--net=host''])"
  using docker_parameters_add_host
          [of "\<lparr>notional = ''spark-master'', actual = ''10.0.0.7''\<rparr>" "Some [''--net=host'']"]
        docker_parameters_add_host
          [of "\<lparr>notional = ''10.0.0.7'', actual = ''10.0.0.7''\<rparr>" "Some [''--net=host'']"]
  by simp

text \<open>
  The claim as first stated (the result contains exactly one such flag) fails when the
  argument list holds the flag already, as it does after an earlier call on the same
  list: the result then holds it twice.
\<close>

theorem docker_parameters_add_host_counterexample:
  "fst (docker_parameters \<lparr>notional = ''foo'', actual = ''bar''\<rparr>
          (Some [''--add-host=spark-master:bar''])) =
     Some [''--add-host=spark-master:bar'', ''--add-host=spark-master:bar''] \<and>
   count_list [''--add-host=spark-master:bar'', ''--add-host=spark-master:bar'']
     ''--add-host=spark-master:bar'' = 2"
  by (simp add: docker_parameters_def Let_def)

text \<open>
  Claim C10: a freshly constructed \<open>MasterAddress(s)\<close> equals \<open>s\<close> and equals its own
  \<open>actual\<close> field; so \<open>docker_parameters\<close> on it adds no \<open>--add-host\<close> flag and returns
  its argument unchanged, \<open>None\<close> when given \<open>None\<close>.
\<close>

theorem MasterAddress_fresh:
  "notional (MasterAddress s) = s \<and>
   actual (MasterAddress s) = notional (MasterAddress s) \<and>
   docker_parameters (MasterAddress s) dps = (dps, dps) \<and>
   fst (docker_parameters (MasterAddress s) None) = None"
  by (simp add: MasterAddress_def docker_parameters_def)

section \<open>The elapsed time that is logged\<close>

text \<open>
  Claim C4 says that the third field of the string \<open>_format_time\<close> returns is the
  remaining whole seconds of the interval. The function computes that number and then
  formats the hours in its place: for the interval from 0 to 3725 seconds (1 hour,
  2 minutes, 5 seconds) it returns \<open>1h 2m 1s\<close>.
\<close>

theorem format_time_seconds_field:
  "format_time 0 3725 = ''1h 2m 1s'' \<and> format_time 0 3725 \<noteq> ''1h 2m 5s''"
  by (simp add: format_time_def py_int_def Let_def str_int_def str_nat.simps digit_char_def)

section \<open>The file store round trip\<close>

text \<open>
  Claim C9: for every local file, uploading it to the external store and then
  downloading the handle the upload returned yields content byte-identical to the
  original file.
\<close>

theorem upload_download_round_trip:
  assumes "files upload_path = Some content"
  shows "\<exists>h store' files'.
           store_write address files store upload_path = Inr (h, store') \<and>
           store_read store' files h download_path = Inr files' \<and>
           files' download_path = Some content \<and>
           files' download_path = files upload_path"
  using assms by (simp add: store_write_def store_read_def)

theorem upload_download_round_trip_witness:
  "\<exists>h store' files'.
     store_write (\<lambda>b. ''blob-'' @ b) [''upload_file'' \<mapsto> ''0123abc''] Map.empty ''upload_file''
       = Inr (h, store') \<and>
     store_read store' [''upload_file'' \<mapsto> ''0123abc''] h ''download_file'' = Inr files' \<and>
     files' ''download_file'' = Some ''0123abc''"
proof -
  have present: "[''upload_file'' \<mapsto> ''0123abc''] ''upload_file'' = Some ''0123abc''"
    by simp
  from upload_download_round_trip
         [of "[''upload_file'' \<mapsto> ''0123abc'']" "''upload_file''" "''0123abc''"
             "\<lambda>b. ''blob-'' @ b" Map.empty "''download_file''"]
       present
  show ?thesis by blast
qed

end
